theory Spec2Isabelle
  imports Main "HOL-Library.Word"
begin

section \<open>Data of the webhook suite\<close>

text \<open>
  The suite (package \<open>webhooks\<close>) talks to a cluster through clients that are built from
  a shared helper object \<open>h\<close>. The records below are the Go structs restricted to the
  fields that the suite reads or writes.
\<close>

subsection \<open>Cluster objects\<close>

text \<open>Errors of the cluster API and of the wait library, told apart by kind.\<close>

datatype go_error = NotFound | Forbidden | Conflict | DeadlineExceeded | OtherError

text \<open>\<open>apierrors.IsNotFound\<close> and \<open>apierrors.IsForbidden\<close>; both are false on \<open>nil\<close>.\<close>

definition IsNotFound :: "go_error option \<Rightarrow> bool" where
  "IsNotFound err = (err = Some NotFound)"

definition IsForbidden :: "go_error option \<Rightarrow> bool" where
  "IsForbidden err = (err = Some Forbidden)"

record ObjectMeta =
  Name :: string
  Namespace :: string

record Container =
  container_Name :: string
  Image :: string

datatype TaintEffect = TaintEffectNoSchedule | TaintEffectPreferNoSchedule | TaintEffectNoExecute

record Toleration =
  Key :: string
  Value :: string
  Effect :: TaintEffect

record PodSpec =
  Containers :: "Container list"
  Tolerations :: "Toleration list"

record Pod =
  pod_ObjectMeta :: ObjectMeta
  Spec :: PodSpec

text \<open>The four counters of \<open>appsv1.DaemonSetStatus\<close> that the suite reads are \<open>int32\<close>.\<close>

type_synonym int32 = "32 word"

record DaemonSetStatus =
  CurrentNumberScheduled :: int32
  NumberReady :: int32
  NumberAvailable :: int32
  DesiredNumberScheduled :: int32

record DaemonSet =
  ds_ObjectMeta :: ObjectMeta
  Status :: DaemonSetStatus

text \<open>\<open>k8s.Object\<close>: the interface value handed to a match callback.\<close>

datatype k8s_Object = DaemonSetObject DaemonSet | PodObject Pod

datatype panic = TypeAssertionPanic | NilPointerPanic

datatype failure = Failure string | Panicked panic

subsection \<open>Names\<close>

definition namespaceName :: string where "namespaceName = ''openshift-validation-webhook''"
definition serviceName :: string where "serviceName = ''validation-webhook''"
definition daemonsetName :: string where "daemonsetName = ''validation-webhook''"
definition configMapName :: string where "configMapName = ''webhook-cert''"
definition secretName :: string where "secretName = ''webhook-cert''"
definition privilegedNamespace :: string where "privilegedNamespace = ''openshift-backplane''"
definition unprivilegedNamespace :: string where "unprivilegedNamespace = ''openshift-logging''"

subsection \<open>Impersonation and the helper\<close>

text \<open>\<open>rest.ImpersonationConfig\<close>: the user name and the group slice, in order.\<close>

record ImpersonationConfig =
  UserName :: string
  Groups :: "string list"

text \<open>\<open>rest.Config\<close>, restricted to the identity it carries.\<close>

record rest_Config =
  Impersonate :: ImpersonationConfig

text \<open>
  \<open>helper.H\<close>: the field \<open>ServiceAccount\<close> is written by \<open>asServiceAccount\<close>; the
  REST configuration and the current project are reached through methods only.
\<close>

record H =
  ServiceAccount :: string
  restConfig :: rest_Config
  project :: string

text \<open>
  Modelled from the spec: the methods \<open>Impersonate\<close>, \<open>GetConfig\<close> and
  \<open>CurrentProject\<close> of \<open>helper.H\<close> (package \<open>pkg/common/helper\<close>) are not among the
  source files. The spec describes the helper as a shared mutable struct whose identity is
  mutated in place before each call (impersonation by mutation): \<open>Impersonate\<close> stores the
  identity in the helper's configuration, \<open>GetConfig\<close> hands out that configuration, and
  \<open>CurrentProject\<close> reads the project the helper works in.
\<close>

definition H_Impersonate :: "H \<Rightarrow> ImpersonationConfig \<Rightarrow> H" where
  "H_Impersonate h user = h\<lparr>restConfig := (restConfig h)\<lparr>Impersonate := user\<rparr>\<rparr>"

definition GetConfig :: "H \<Rightarrow> rest_Config" where
  "GetConfig h = restConfig h"

definition CurrentProject :: "H \<Rightarrow> string" where
  "CurrentProject h = project h"

subsection \<open>Clients\<close>

text \<open>
  \<open>resources.Resources\<close>: a client, as \<open>resources.New\<close> returns it, with the
  configuration it was built from. \<open>resources.New\<close> either returns a client or an error;
  which configurations are accepted is a parameter \<open>ok\<close> of the model. The library is
  outside the repository: what a client does with its configuration after it was built
  is not part of the model.
\<close>

record Resources =
  config :: rest_Config

datatype new_error = NewError

definition resources_New :: "(rest_Config \<Rightarrow> bool) \<Rightarrow> rest_Config \<Rightarrow> new_error + Resources" where
  "resources_New ok cfg = (if ok cfg then Inr \<lparr>config = cfg\<rparr> else Inl NewError)"

text \<open>
  \<open>asUser\<close>: the two baseline groups are appended when the user is not empty, the
  identity is stored in the helper, and the client is built from the helper's
  configuration. The helper is returned as updated.
\<close>

definition asUser :: "(rest_Config \<Rightarrow> bool) \<Rightarrow> H \<Rightarrow> string \<Rightarrow> string list \<Rightarrow> H \<times> (failure + Resources)" where
  "asUser ok h user groups =
     (let groups' = (if user \<noteq> [] then groups @ [''system:authenticated'', ''system:authenticated:oauth'']
                     else groups);
          h' = H_Impersonate h \<lparr>UserName = user, Groups = groups'\<rparr>
      in case resources_New ok (GetConfig h') of
           Inl err \<Rightarrow> (h', Inl (Failure ''failed to create resources client object''))
         | Inr client \<Rightarrow> (h', Inr client))"

definition asServiceAccount :: "(rest_Config \<Rightarrow> bool) \<Rightarrow> H \<Rightarrow> string \<Rightarrow> H \<times> (failure + Resources)" where
  "asServiceAccount ok h sa = asUser ok (h\<lparr>ServiceAccount := sa\<rparr>) sa []"

definition asDedicatedAdmin :: "(rest_Config \<Rightarrow> bool) \<Rightarrow> H \<Rightarrow> H \<times> (failure + Resources)" where
  "asDedicatedAdmin ok h = asUser ok h ''test-user@redhat.com'' [''dedicated-admins'']"

text \<open>The identity a client acts under.\<close>

definition identity :: "Resources \<Rightarrow> ImpersonationConfig" where
  "identity client = Impersonate (config client)"

section \<open>Waiting for the daemonset\<close>

text \<open>
  The callback that \<open>waitForDaemonSetAvailable\<close> passes to \<open>ResourceMatch\<close>: the type
  assertion panics on an object that is no daemonset; the three comparisons are those of
  the source, in its order.
\<close>

definition daemonSetMatch :: "k8s_Object \<Rightarrow> panic + bool" where
  "daemonSetMatch object =
     (case object of
        DaemonSetObject d \<Rightarrow>
          (let desiredNumScheduled = DesiredNumberScheduled (Status d)
           in Inr (CurrentNumberScheduled (Status d) = desiredNumScheduled \<and>
                   NumberReady (Status d) = desiredNumScheduled \<and>
                   NumberAvailable (Status d) = desiredNumScheduled))
      | PodObject p \<Rightarrow> Inl TypeAssertionPanic)"

text \<open>
  \<open>conditions.New(resources).ResourceMatch(ds, f)\<close> builds a condition from the client, the
  object to fetch and the callback; \<open>wait.For\<close> runs a condition and returns an error or
  \<open>nil\<close>. Both belong to a library outside the repository: the condition is kept as
  the triple it is built from, and \<open>wait.For\<close> is a parameter.
\<close>

datatype condition = ResourceMatch Resources DaemonSet "k8s_Object \<Rightarrow> panic + bool"

definition waitForDaemonSetAvailable ::
  "(condition \<Rightarrow> go_error option) \<Rightarrow> Resources \<Rightarrow> string \<Rightarrow> string \<Rightarrow> go_error option" where
  "waitForDaemonSetAvailable wait_For resources name namespace =
     (let ds = \<lparr>ds_ObjectMeta = \<lparr>Name = name, Namespace = namespace\<rparr>,
                Status = \<lparr>CurrentNumberScheduled = 0, NumberReady = 0,
                          NumberAvailable = 0, DesiredNumberScheduled = 0\<rparr>\<rparr>
      in wait_For (ResourceMatch resources ds daemonSetMatch))"

section \<open>The suite as a state transformer\<close>

text \<open>
  A request that reaches the cluster: who sends it, and what it is addressed to.
  \<open>Get\<close> takes name, namespace and an empty object of the wanted kind; \<open>Create\<close> sends
  the pod; \<open>Delete\<close> is addressed by the name and namespace of the object.
\<close>

datatype kind = KindNamespace | KindConfigMap | KindSecret | KindService

datatype call =
    GetCall ImpersonationConfig string string kind
  | CreateCall ImpersonationConfig Pod
  | DeleteCall ImpersonationConfig ObjectMeta

text \<open>Who sends a request.\<close>

definition actor :: "call \<Rightarrow> ImpersonationConfig" where
  "actor c = (case c of GetCall who name namespace k \<Rightarrow> who
                      | CreateCall who p \<Rightarrow> who
                      | DeleteCall who m \<Rightarrow> who)"

text \<open>
  What lies outside the suite: which configurations \<open>resources.New\<close> accepts, how the
  cluster answers a request after the requests sent so far, and \<open>wait.For\<close>.
\<close>

record env =
  New_ok :: "rest_Config \<Rightarrow> bool"
  cluster :: "call list \<Rightarrow> call \<Rightarrow> go_error option"
  wait_For :: "condition \<Rightarrow> go_error option"

text \<open>
  The package variables \<open>h\<close> and \<open>pod\<close>, the pods they point to (a pointer is an
  address, \<open>nil\<close> is \<open>None\<close>), and the requests sent so far.
\<close>

record suite_state =
  var_h :: H
  var_pod :: "nat option"
  heap :: "nat \<rightharpoonup> Pod"
  next_addr :: nat
  trace :: "call list"

text \<open>
  A step of a spec runs on the state and either yields a value or fails; a failure (a
  failed expectation or a panic) ends the spec body, and the state reached stays.
\<close>

type_synonym 'a test = "suite_state \<Rightarrow> (failure + 'a) \<times> suite_state"

definition returnT :: "'a \<Rightarrow> 'a test" where
  "returnT x = (\<lambda>st. (Inr x, st))"

definition bindT :: "'a test \<Rightarrow> ('a \<Rightarrow> 'b test) \<Rightarrow> 'b test" where
  "bindT m f = (\<lambda>st. case m st of (Inl e, st') \<Rightarrow> (Inl e, st') | (Inr x, st') \<Rightarrow> f x st')"

text \<open>\<open>Expect(...)\<close> with its message.\<close>

definition expectT :: "bool \<Rightarrow> string \<Rightarrow> unit test" where
  "expectT b msg = (\<lambda>st. if b then (Inr (), st) else (Inl (Failure msg), st))"

definition get_pod :: "(nat option) test" where
  "get_pod = (\<lambda>st. (Inr (var_pod st), st))"

definition set_pod :: "nat option \<Rightarrow> unit test" where
  "set_pod p = (\<lambda>st. (Inr (), st\<lparr>var_pod := p\<rparr>))"

text \<open>The factory functions, run on the helper that \<open>h\<close> points to.\<close>

definition asUserT :: "env \<Rightarrow> string \<Rightarrow> string list \<Rightarrow> Resources test" where
  "asUserT e user groups =
     (\<lambda>st. case asUser (New_ok e) (var_h st) user groups of (h', r) \<Rightarrow> (r, st\<lparr>var_h := h'\<rparr>))"

definition asServiceAccountT :: "env \<Rightarrow> string \<Rightarrow> Resources test" where
  "asServiceAccountT e sa =
     (\<lambda>st. case asServiceAccount (New_ok e) (var_h st) sa of (h', r) \<Rightarrow> (r, st\<lparr>var_h := h'\<rparr>))"

definition asDedicatedAdminT :: "env \<Rightarrow> Resources test" where
  "asDedicatedAdminT e =
     (\<lambda>st. case asDedicatedAdmin (New_ok e) (var_h st) of (h', r) \<Rightarrow> (r, st\<lparr>var_h := h'\<rparr>))"

text \<open>The three client operations: the request is recorded and the cluster answers.\<close>

definition send :: "env \<Rightarrow> call \<Rightarrow> (go_error option) test" where
  "send e c = (\<lambda>st. (Inr (cluster e (trace st) c), st\<lparr>trace := trace st @ [c]\<rparr>))"

definition Resources_Get :: "env \<Rightarrow> Resources \<Rightarrow> string \<Rightarrow> string \<Rightarrow> kind \<Rightarrow> (go_error option) test" where
  "Resources_Get e client name namespace k = send e (GetCall (identity client) name namespace k)"

definition deref :: "suite_state \<Rightarrow> nat option \<Rightarrow> Pod option" where
  "deref st p = (case p of None \<Rightarrow> None | Some a \<Rightarrow> heap st a)"

definition Resources_Create :: "env \<Rightarrow> Resources \<Rightarrow> nat option \<Rightarrow> (go_error option) test" where
  "Resources_Create e client p =
     (\<lambda>st. case deref st p of
              None \<Rightarrow> (Inl (Panicked NilPointerPanic), st)
            | Some obj \<Rightarrow> send e (CreateCall (identity client) obj) st)"

definition Resources_Delete :: "env \<Rightarrow> Resources \<Rightarrow> nat option \<Rightarrow> (go_error option) test" where
  "Resources_Delete e client p =
     (\<lambda>st. case deref st p of
              None \<Rightarrow> (Inl (Panicked NilPointerPanic), st)
            | Some obj \<Rightarrow> send e (DeleteCall (identity client) (pod_ObjectMeta obj)) st)"

subsection \<open>Pods\<close>

definition testPod :: "string \<Rightarrow> Pod" where
  "testPod name =
     \<lparr>pod_ObjectMeta = \<lparr>Name = name, Namespace = []\<rparr>,
      Spec = \<lparr>Containers =
                [\<lparr>container_Name = ''test'',
                  Image = ''registry.access.redhat.com/ubi8/ubi-minimal''\<rparr>],
              Tolerations =
                [\<lparr>Key = ''node-role.kubernetes.io/master'', Value = ''toleration-key-value'',
                  Effect = TaintEffectNoSchedule\<rparr>,
                 \<lparr>Key = ''node-role.kubernetes.io/infra'', Value = ''toleration-key-value2'',
                  Effect = TaintEffectNoSchedule\<rparr>]\<rparr>\<rparr>"

text \<open>\<open>newTestPod\<close> allocates the pod and returns the pointer to it.\<close>

definition newTestPod :: "string \<Rightarrow> (nat option) test" where
  "newTestPod name =
     (\<lambda>st. (Inr (Some (next_addr st)),
            st\<lparr>heap := (heap st)(next_addr st \<mapsto> testPod name), next_addr := Suc (next_addr st)\<rparr>))"

text \<open>\<open>withNamespace\<close> writes through the pointer and returns the pointer it was given.\<close>

definition withNamespace :: "nat option \<Rightarrow> string \<Rightarrow> (nat option) test" where
  "withNamespace p namespace =
     (\<lambda>st. case p of
              None \<Rightarrow> (Inl (Panicked NilPointerPanic), st)
            | Some a \<Rightarrow>
                (case heap st a of
                   None \<Rightarrow> (Inl (Panicked NilPointerPanic), st)
                 | Some obj \<Rightarrow>
                     (Inr (Some a),
                      st\<lparr>heap := (heap st)(a \<mapsto>
                            obj\<lparr>pod_ObjectMeta := (pod_ObjectMeta obj)\<lparr>Namespace := namespace\<rparr>\<rparr>)\<rparr>)))"

subsection \<open>The specs\<close>

text \<open>\<open>It("exists and is running")\<close>.\<close>

definition exists_and_is_running :: "env \<Rightarrow> unit test" where
  "exists_and_is_running e =
     bindT (asUserT e [] []) (\<lambda>client.
     bindT (Resources_Get e client namespaceName namespaceName KindNamespace) (\<lambda>err.
     bindT (expectT (err = None) ''project should have been created'') (\<lambda>_.
     bindT (Resources_Get e client configMapName namespaceName KindConfigMap) (\<lambda>err.
     bindT (expectT (err = None) (''failed to get config map '' @ configMapName)) (\<lambda>_.
     bindT (Resources_Get e client secretName namespaceName KindSecret) (\<lambda>err.
     bindT (expectT (err = None) (''failed to get secret '' @ secretName)) (\<lambda>_.
     bindT (Resources_Get e client serviceName namespaceName KindService) (\<lambda>err.
     bindT (expectT (err = None) (''no Service named '' @ serviceName @ '' found.'')) (\<lambda>_.
     bindT (returnT (waitForDaemonSetAvailable (wait_For e) client daemonsetName namespaceName)) (\<lambda>err.
     expectT (err = None) (''no DaemonSet named '' @ daemonsetName @ '' found.'')))))))))))"

text \<open>
  \<open>BeforeEach\<close>: the name comes from \<open>envconf.RandomName("osde2e", 12)\<close>, which is
  outside the repository; it is the argument \<open>name\<close>.
\<close>

definition BeforeEach :: "string \<Rightarrow> unit test" where
  "BeforeEach name = bindT (newTestPod name) (\<lambda>p. set_pod p)"

definition AfterEach :: "env \<Rightarrow> unit test" where
  "AfterEach e =
     bindT (asUserT e [] []) (\<lambda>client.
     bindT get_pod (\<lambda>p.
     bindT (Resources_Delete e client p) (\<lambda>err.
     if \<not> IsNotFound err then expectT (err = None) ''failed to delete test pod''
     else returnT ())))"

text \<open>\<open>It("are blocked")\<close>.\<close>

definition are_blocked :: "env \<Rightarrow> unit test" where
  "are_blocked e =
     bindT get_pod (\<lambda>p.
     bindT (withNamespace p privilegedNamespace) (\<lambda>p'.
     bindT (set_pod p') (\<lambda>_.
     bindT (asDedicatedAdminT e) (\<lambda>admin.
     bindT get_pod (\<lambda>p.
     bindT (Resources_Create e admin p) (\<lambda>err.
     bindT (expectT (IsForbidden err) ''expected forbidden error'') (\<lambda>_.
     bindT (asUserT e ''majora'' []) (\<lambda>client.
     bindT get_pod (\<lambda>p.
     bindT (Resources_Create e client p) (\<lambda>err.
     bindT (expectT (IsForbidden err) ''expected forbidden error'') (\<lambda>_.
     bindT get_pod (\<lambda>p.
     bindT (withNamespace p unprivilegedNamespace) (\<lambda>p'.
     bindT (Resources_Create e client p') (\<lambda>err.
     expectT (IsForbidden err) ''expected forbidden error''))))))))))))))"

text \<open>\<open>It("are allowed")\<close>: the service account is named after the helper's project.\<close>

definition are_allowed :: "env \<Rightarrow> unit test" where
  "are_allowed e =
     bindT (\<lambda>st. (Inr (CurrentProject (var_h st)), st)) (\<lambda>proj.
     bindT (asServiceAccountT e (''system:serviceaccount:'' @ proj @ '':dedicated-admin-project'')) (\<lambda>client.
     bindT get_pod (\<lambda>p.
     bindT (withNamespace p privilegedNamespace) (\<lambda>p'.
     bindT (Resources_Create e client p') (\<lambda>err.
     expectT (err = None) ''failed to create pod'')))))"

text \<open>
  One spec of the inner container: \<open>BeforeEach\<close>, the body, and \<open>AfterEach\<close>, which runs
  whether or not the body failed. The failures are collected in order. The time limit of
  a spec (\<open>SpecTimeout\<close>) is not part of the model.
\<close>

definition failures :: "failure + unit \<Rightarrow> failure list" where
  "failures r = (case r of Inl f \<Rightarrow> [f] | Inr u \<Rightarrow> [])"

definition spec_body :: "string \<Rightarrow> unit test \<Rightarrow> unit test" where
  "spec_body name body = bindT (BeforeEach name) (\<lambda>_. body)"

definition run_spec :: "env \<Rightarrow> string \<Rightarrow> unit test \<Rightarrow> suite_state \<Rightarrow> failure list \<times> suite_state" where
  "run_spec e name body st =
     (case spec_body name body st of (r1, st1) \<Rightarrow>
      case AfterEach e st1 of (r2, st2) \<Rightarrow> (failures r1 @ failures r2, st2))"

section \<open>Two calls of \<open>asUser\<close> running at once\<close>

text \<open>
  \<open>asUser\<close> touches the helper twice: it stores the identity, and then it reads the
  configuration back to build the client. A goroutine inside \<open>asUser\<close> is at one of these
  two statements or has returned; a schedule says which goroutine moves next.
\<close>

datatype stage = AtImpersonate | AtNew | Returned

record goroutine =
  g_user :: string
  g_groups :: "string list"
  g_stage :: stage
  g_result :: "(failure + Resources) option"

definition asUser_step :: "(rest_Config \<Rightarrow> bool) \<Rightarrow> H \<Rightarrow> goroutine \<Rightarrow> H \<times> goroutine" where
  "asUser_step ok h g =
     (case g_stage g of
        AtImpersonate \<Rightarrow>
          (let groups' = (if g_user g \<noteq> []
                          then g_groups g @ [''system:authenticated'', ''system:authenticated:oauth'']
                          else g_groups g)
           in (H_Impersonate h \<lparr>UserName = g_user g, Groups = groups'\<rparr>, g\<lparr>g_stage := AtNew\<rparr>))
      | AtNew \<Rightarrow>
          (h, g\<lparr>g_stage := Returned,
                g_result := Some (case resources_New ok (GetConfig h) of
                                    Inl err \<Rightarrow> Inl (Failure ''failed to create resources client object'')
                                  | Inr client \<Rightarrow> Inr client)\<rparr>)
      | Returned \<Rightarrow> (h, g))"

definition enter_asUser :: "string \<Rightarrow> string list \<Rightarrow> goroutine" where
  "enter_asUser user groups =
     \<lparr>g_user = user, g_groups = groups, g_stage = AtImpersonate, g_result = None\<rparr>"

datatype turn = First | Second

fun run_schedule ::
  "(rest_Config \<Rightarrow> bool) \<Rightarrow> turn list \<Rightarrow> H \<times> goroutine \<times> goroutine \<Rightarrow> H \<times> goroutine \<times> goroutine" where
  "run_schedule ok [] s = s"
| "run_schedule ok (First # ts) (h, g1, g2) =
     (case asUser_step ok h g1 of (h', g1') \<Rightarrow> run_schedule ok ts (h', g1', g2))"
| "run_schedule ok (Second # ts) (h, g1, g2) =
     (case asUser_step ok h g2 of (h', g2') \<Rightarrow> run_schedule ok ts (h', g1, g2'))"

section \<open>A sample cluster\<close>

text \<open>
  Concrete values on which the specs can be run: a helper that impersonates no one, a
  library that accepts every configuration, and a cluster that holds the webhook's objects,
  refuses every pod but those of the service account \<open>dedicated-admin-project\<close> of the
  helper's project, and knows a pod for deletion once it was created.
\<close>

definition accept_all :: "rest_Config \<Rightarrow> bool" where
  "accept_all cfg = True"

definition h0 :: H where
  "h0 = \<lparr>ServiceAccount = [],
         restConfig = \<lparr>Impersonate = \<lparr>UserName = [], Groups = []\<rparr>\<rparr>,
         project = ''osde2e-x1''\<rparr>"

definition st0 :: suite_state where
  "st0 = \<lparr>var_h = h0, var_pod = None, heap = Map.empty, next_addr = 0, trace = []\<rparr>"

definition created :: "ObjectMeta \<Rightarrow> call \<Rightarrow> bool" where
  "created m c =
     (case c of
        GetCall who name namespace k \<Rightarrow> False
      | CreateCall who p \<Rightarrow>
          pod_ObjectMeta p = m \<and>
          UserName who = ''system:serviceaccount:osde2e-x1:dedicated-admin-project''
      | DeleteCall who m' \<Rightarrow> False)"

definition sample_cluster :: "call list \<Rightarrow> call \<Rightarrow> go_error option" where
  "sample_cluster history c =
     (case c of
        GetCall who name namespace k \<Rightarrow> None
      | CreateCall who p \<Rightarrow>
          (if UserName who = ''system:serviceaccount:osde2e-x1:dedicated-admin-project''
           then None else Some Forbidden)
      | DeleteCall who m \<Rightarrow>
          (if list_ex (created m) history then None else Some NotFound))"

definition sample_wait :: "condition \<Rightarrow> go_error option" where
  "sample_wait c = None"

text \<open>
  A waiter on which \<open>waitForDaemonSetAvailable\<close> can be run: it is given the objects that
  its fetches return, reports success when the callback is true on one of them, and gives
  up otherwise. \<open>sample_ds\<close> is the webhook's daemonset with the four counters given as
  desired, current, ready and available.
\<close>

definition sample_poll :: "k8s_Object list \<Rightarrow> condition \<Rightarrow> go_error option" where
  "sample_poll objs c =
     (case c of ResourceMatch client ds f \<Rightarrow>
        (if list_ex (\<lambda>obj. f obj = Inr True) objs then None else Some DeadlineExceeded))"

definition sample_ds :: "int32 \<Rightarrow> int32 \<Rightarrow> int32 \<Rightarrow> int32 \<Rightarrow> k8s_Object" where
  "sample_ds desired current ready available =
     DaemonSetObject \<lparr>ds_ObjectMeta = \<lparr>Name = ''validation-webhook'', Namespace = ''openshift-validation-webhook''\<rparr>,
        Status = \<lparr>CurrentNumberScheduled = current, NumberReady = ready,
                  NumberAvailable = available, DesiredNumberScheduled = desired\<rparr>\<rparr>"

definition e0 :: env where
  "e0 = \<lparr>New_ok = accept_all, cluster = sample_cluster, wait_For = sample_wait\<rparr>"

section \<open>Identity of the clients built by \<open>asUser\<close>\<close>

lemma asUser_helper:
  "Impersonate (GetConfig (fst (asUser ok h user groups))) =
     \<lparr>UserName = user,
      Groups = (if user \<noteq> [] then groups @ [''system:authenticated'', ''system:authenticated:oauth'']
                else groups)\<rparr>"
  by (simp add: asUser_def Let_def H_Impersonate_def GetConfig_def resources_New_def)

lemma asUser_client:
  assumes "asUser ok h user groups = (h', Inr client)"
  shows "identity client =
     \<lparr>UserName = user,
      Groups = (if user \<noteq> [] then groups @ [''system:authenticated'', ''system:authenticated:oauth'']
                else groups)\<rparr>"
  using assms
  by (auto simp: asUser_def Let_def H_Impersonate_def GetConfig_def resources_New_def identity_def
           split: if_splits)

text \<open>
  Taken one statement at a time by the first goroutine alone (or by the second alone), the
  two steps are \<open>asUser\<close>.
\<close>

lemma asUser_steps:
  "run_schedule ok [First, First] (h, enter_asUser user groups, g) =
     (fst (asUser ok h user groups),
      \<lparr>g_user = user, g_groups = groups, g_stage = Returned,
       g_result = Some (snd (asUser ok h user groups))\<rparr>, g)"
  by (simp add: asUser_step_def enter_asUser_def asUser_def Let_def split: sum.splits)

lemma asUser_steps2:
  "run_schedule ok [Second, Second] (h, g, enter_asUser user groups) =
     (fst (asUser ok h user groups), g,
      \<lparr>g_user = user, g_groups = groups, g_stage = Returned,
       g_result = Some (snd (asUser ok h user groups))\<rparr>)"
  by (simp add: asUser_step_def enter_asUser_def asUser_def Let_def split: sum.splits)

section \<open>The claims about identities\<close>

text \<open>
  C1, as amended. \<open>asUser\<close> sets the identity by overwriting the impersonation stored in
  the shared helper and then builds the client from the helper's configuration;
  \<open>asServiceAccount\<close> also writes the account into the helper's \<open>ServiceAccount\<close> field.
  When two calls do not overlap (the first returns before the second starts, as in the
  suite), each call returns a client built for the user and groups it was asked for, and
  after the later call the helper's configuration carries the later identity and no longer
  the earlier one. Nothing is promised for calls that overlap.
\<close>

theorem asUser_sequential_identity:
  assumes "asUser ok h user1 groups1 = (h1, Inr client1)"
      and "asUser ok h1 user2 groups2 = (h2, Inr client2)"
  shows "identity client1 = \<lparr>UserName = user1,
            Groups = (if user1 \<noteq> [] then groups1 @ [''system:authenticated'', ''system:authenticated:oauth''] else groups1)\<rparr>
       \<and> Impersonate (GetConfig h1) = identity client1
       \<and> identity client2 = \<lparr>UserName = user2,
            Groups = (if user2 \<noteq> [] then groups2 @ [''system:authenticated'', ''system:authenticated:oauth''] else groups2)\<rparr>
       \<and> Impersonate (GetConfig h2) = identity client2
       \<and> (identity client2 \<noteq> identity client1 \<longrightarrow> Impersonate (GetConfig h2) \<noteq> identity client1)
       \<and> run_schedule ok [First, First, Second, Second]
            (h, enter_asUser user1 groups1, enter_asUser user2 groups2) =
          (h2, \<lparr>g_user = user1, g_groups = groups1, g_stage = Returned, g_result = Some (Inr client1)\<rparr>,
               \<lparr>g_user = user2, g_groups = groups2, g_stage = Returned, g_result = Some (Inr client2)\<rparr>)
       \<and> ServiceAccount (fst (asServiceAccount ok h sa)) = sa
       \<and> Impersonate (GetConfig (fst (asServiceAccount ok h sa))) =
           \<lparr>UserName = sa,
            Groups = (if sa \<noteq> [] then [''system:authenticated'', ''system:authenticated:oauth''] else [])\<rparr>"
proof -
  have c1: "identity client1 = \<lparr>UserName = user1,
      Groups = (if user1 \<noteq> [] then groups1 @ [''system:authenticated'', ''system:authenticated:oauth''] else groups1)\<rparr>"
    using assms(1) by (rule asUser_client)
  have c2: "identity client2 = \<lparr>UserName = user2,
      Groups = (if user2 \<noteq> [] then groups2 @ [''system:authenticated'', ''system:authenticated:oauth''] else groups2)\<rparr>"
    using assms(2) by (rule asUser_client)
  have g1: "Impersonate (GetConfig h1) = identity client1"
    using asUser_helper [of ok h user1 groups1] assms(1) c1 by simp
  have g2: "Impersonate (GetConfig h2) = identity client2"
    using asUser_helper [of ok h1 user2 groups2] assms(2) c2 by simp
  have over: "identity client2 \<noteq> identity client1 \<longrightarrow> Impersonate (GetConfig h2) \<noteq> identity client1"
    using g2 by simp
  have "run_schedule ok ([First, First] @ [Second, Second])
            (h, enter_asUser user1 groups1, enter_asUser user2 groups2) =
        run_schedule ok [Second, Second] (run_schedule ok [First, First]
            (h, enter_asUser user1 groups1, enter_asUser user2 groups2))"
    by (simp split: prod.splits)
  then have sched: "run_schedule ok [First, First, Second, Second]
            (h, enter_asUser user1 groups1, enter_asUser user2 groups2) =
          (h2, \<lparr>g_user = user1, g_groups = groups1, g_stage = Returned, g_result = Some (Inr client1)\<rparr>,
               \<lparr>g_user = user2, g_groups = groups2, g_stage = Returned, g_result = Some (Inr client2)\<rparr>)"
    unfolding asUser_steps asUser_steps2 using assms by simp
  have sa1: "ServiceAccount (fst (asServiceAccount ok h sa)) = sa"
    by (simp add: asServiceAccount_def asUser_def Let_def H_Impersonate_def split: sum.splits)
  have sa2: "Impersonate (GetConfig (fst (asServiceAccount ok h sa))) =
           \<lparr>UserName = sa,
            Groups = (if sa \<noteq> [] then [''system:authenticated'', ''system:authenticated:oauth''] else [])\<rparr>"
    using asUser_helper [of ok "h\<lparr>ServiceAccount := sa\<rparr>" sa "[]"]
    by (simp add: asServiceAccount_def)
  from c1 c2 g1 g2 over sched sa1 sa2 show ?thesis by blast
qed

text \<open>
  Witness for C1, as amended: on the sample helper, a client for \<open>majora\<close> and then a
  client for the dedicated admin; the helper ends with the admin's identity.
\<close>

theorem asUser_sequential_identity_witness:
  "asUser accept_all h0 ''majora'' [] =
     (H_Impersonate h0 \<lparr>UserName = ''majora'',
        Groups = [''system:authenticated'', ''system:authenticated:oauth'']\<rparr>,
      Inr \<lparr>config = \<lparr>Impersonate = \<lparr>UserName = ''majora'',
        Groups = [''system:authenticated'', ''system:authenticated:oauth'']\<rparr>\<rparr>\<rparr>)
   \<and> asUser accept_all
        (H_Impersonate h0 \<lparr>UserName = ''majora'',
           Groups = [''system:authenticated'', ''system:authenticated:oauth'']\<rparr>)
        ''test-user@redhat.com'' [''dedicated-admins''] =
     (H_Impersonate h0 \<lparr>UserName = ''test-user@redhat.com'',
        Groups = [''dedicated-admins'', ''system:authenticated'', ''system:authenticated:oauth'']\<rparr>,
      Inr \<lparr>config = \<lparr>Impersonate = \<lparr>UserName = ''test-user@redhat.com'',
        Groups = [''dedicated-admins'', ''system:authenticated'', ''system:authenticated:oauth'']\<rparr>\<rparr>\<rparr>)
   \<and> identity \<lparr>config = \<lparr>Impersonate = \<lparr>UserName = ''test-user@redhat.com'',
        Groups = [''dedicated-admins'', ''system:authenticated'', ''system:authenticated:oauth'']\<rparr>\<rparr>\<rparr> \<noteq>
       identity \<lparr>config = \<lparr>Impersonate = \<lparr>UserName = ''majora'',
        Groups = [''system:authenticated'', ''system:authenticated:oauth'']\<rparr>\<rparr>\<rparr>
   \<and> Impersonate (GetConfig (H_Impersonate h0 \<lparr>UserName = ''test-user@redhat.com'',
        Groups = [''dedicated-admins'', ''system:authenticated'', ''system:authenticated:oauth'']\<rparr>)) \<noteq>
       identity \<lparr>config = \<lparr>Impersonate = \<lparr>UserName = ''majora'',
        Groups = [''system:authenticated'', ''system:authenticated:oauth'']\<rparr>\<rparr>\<rparr>"
proof -
  have run1: "asUser accept_all h0 ''majora'' [] =
     (H_Impersonate h0 \<lparr>UserName = ''majora'',
        Groups = [''system:authenticated'', ''system:authenticated:oauth'']\<rparr>,
      Inr \<lparr>config = \<lparr>Impersonate = \<lparr>UserName = ''majora'',
        Groups = [''system:authenticated'', ''system:authenticated:oauth'']\<rparr>\<rparr>\<rparr>)"
    by (simp add: asUser_def Let_def h0_def accept_all_def resources_New_def GetConfig_def
          H_Impersonate_def)
  have run2: "asUser accept_all
        (H_Impersonate h0 \<lparr>UserName = ''majora'',
           Groups = [''system:authenticated'', ''system:authenticated:oauth'']\<rparr>)
        ''test-user@redhat.com'' [''dedicated-admins''] =
     (H_Impersonate h0 \<lparr>UserName = ''test-user@redhat.com'',
        Groups = [''dedicated-admins'', ''system:authenticated'', ''system:authenticated:oauth'']\<rparr>,
      Inr \<lparr>config = \<lparr>Impersonate = \<lparr>UserName = ''test-user@redhat.com'',
        Groups = [''dedicated-admins'', ''system:authenticated'', ''system:authenticated:oauth'']\<rparr>\<rparr>\<rparr>)"
    by (simp add: asUser_def Let_def h0_def accept_all_def resources_New_def GetConfig_def
          H_Impersonate_def)
  have ne: "identity \<lparr>config = \<lparr>Impersonate = \<lparr>UserName = ''test-user@redhat.com'',
        Groups = [''dedicated-admins'', ''system:authenticated'', ''system:authenticated:oauth'']\<rparr>\<rparr>\<rparr> \<noteq>
       identity \<lparr>config = \<lparr>Impersonate = \<lparr>UserName = ''majora'',
        Groups = [''system:authenticated'', ''system:authenticated:oauth'']\<rparr>\<rparr>\<rparr>"
    by (simp add: identity_def)
  show ?thesis using asUser_sequential_identity [OF run1 run2] run1 run2 ne by blast
qed

text \<open>
  Counterexample to C1 as stated: two goroutines enter \<open>asUser\<close> on the same helper, the
  first for \<open>alice\<close> and the second for \<open>bob\<close> with the group \<open>dedicated-admins\<close>. When
  both store their identity before either builds its client, the client returned to the
  first goroutine acts as \<open>bob\<close>, with \<open>bob\<close>'s groups.
\<close>

theorem asUser_interleaved_counterexample:
  "g_result (fst (snd (run_schedule accept_all [First, Second, First, Second]
       (h0, enter_asUser ''alice'' [], enter_asUser ''bob'' [''dedicated-admins''])))) =
     Some (Inr \<lparr>config = \<lparr>Impersonate = \<lparr>UserName = ''bob'',
       Groups = [''dedicated-admins'', ''system:authenticated'', ''system:authenticated:oauth'']\<rparr>\<rparr>\<rparr>)"
  by (simp add: asUser_step_def enter_asUser_def h0_def accept_all_def H_Impersonate_def
        GetConfig_def resources_New_def Let_def)

text \<open>
  C2, as amended. For a non-empty user, the groups of the client are the extra groups
  followed by \<open>system:authenticated\<close> and \<open>system:authenticated:oauth\<close>: as a set they
  are the union of the extra groups with the two markers, and each marker occurs once more
  than it does among the extra groups (so exactly once when the extra groups do not
  contain it).
\<close>

theorem asUser_groups:
  assumes "user \<noteq> []"
      and "asUser ok h user extraGroups = (h', Inr client)"
  shows "UserName (identity client) = user
       \<and> Groups (identity client) =
           extraGroups @ [''system:authenticated'', ''system:authenticated:oauth'']
       \<and> set (Groups (identity client)) =
           set extraGroups \<union> {''system:authenticated'', ''system:authenticated:oauth''}
       \<and> count_list (Groups (identity client)) ''system:authenticated'' =
           count_list extraGroups ''system:authenticated'' + 1
       \<and> count_list (Groups (identity client)) ''system:authenticated:oauth'' =
           count_list extraGroups ''system:authenticated:oauth'' + 1"
proof -
  have "identity client = \<lparr>UserName = user,
      Groups = extraGroups @ [''system:authenticated'', ''system:authenticated:oauth'']\<rparr>"
    using asUser_client [OF assms(2)] assms(1) by simp
  then show ?thesis by auto
qed

text \<open>
  Witness for C2, as amended: \<open>majora\<close> with the extra group \<open>dedicated-admins\<close>.
\<close>

theorem asUser_groups_witness:
  "''majora'' \<noteq> []
   \<and> asUser accept_all h0 ''majora'' [''dedicated-admins''] =
       (H_Impersonate h0 \<lparr>UserName = ''majora'',
          Groups = [''dedicated-admins'', ''system:authenticated'', ''system:authenticated:oauth'']\<rparr>,
        Inr \<lparr>config = \<lparr>Impersonate = \<lparr>UserName = ''majora'',
          Groups = [''dedicated-admins'', ''system:authenticated'', ''system:authenticated:oauth'']\<rparr>\<rparr>\<rparr>)
   \<and> set (Groups (identity \<lparr>config = \<lparr>Impersonate = \<lparr>UserName = ''majora'',
          Groups = [''dedicated-admins'', ''system:authenticated'', ''system:authenticated:oauth'']\<rparr>\<rparr>\<rparr>)) =
       {''dedicated-admins'', ''system:authenticated'', ''system:authenticated:oauth''}
   \<and> count_list (Groups (identity \<lparr>config = \<lparr>Impersonate = \<lparr>UserName = ''majora'',
          Groups = [''dedicated-admins'', ''system:authenticated'', ''system:authenticated:oauth'']\<rparr>\<rparr>\<rparr>))
         ''system:authenticated'' = 1"
proof -
  have run: "asUser accept_all h0 ''majora'' [''dedicated-admins''] =
       (H_Impersonate h0 \<lparr>UserName = ''majora'',
          Groups = [''dedicated-admins'', ''system:authenticated'', ''system:authenticated:oauth'']\<rparr>,
        Inr \<lparr>config = \<lparr>Impersonate = \<lparr>UserName = ''majora'',
          Groups = [''dedicated-admins'', ''system:authenticated'', ''system:authenticated:oauth'']\<rparr>\<rparr>\<rparr>)"
    by (simp add: asUser_def Let_def h0_def accept_all_def resources_New_def GetConfig_def
          H_Impersonate_def)
  have ne: "''majora'' \<noteq> []" by simp
  show ?thesis using asUser_groups [OF ne run] run by auto
qed

text \<open>
  Counterexample to C2 as stated: with \<open>system:authenticated\<close> already among the extra
  groups, the client's groups hold that marker twice.
\<close>

theorem asUser_duplicate_group_counterexample:
  "snd (asUser accept_all h0 ''majora'' [''system:authenticated'']) =
     Inr \<lparr>config = \<lparr>Impersonate = \<lparr>UserName = ''majora'',
       Groups = [''system:authenticated'', ''system:authenticated'', ''system:authenticated:oauth'']\<rparr>\<rparr>\<rparr>
   \<and> count_list (Groups (identity \<lparr>config = \<lparr>Impersonate = \<lparr>UserName = ''majora'',
       Groups = [''system:authenticated'', ''system:authenticated'', ''system:authenticated:oauth'']\<rparr>\<rparr>\<rparr>))
         ''system:authenticated'' = 2"
  by (simp add: asUser_def Let_def h0_def accept_all_def resources_New_def GetConfig_def
        H_Impersonate_def identity_def)

text \<open>
  C3, as amended. For the empty user, the two markers are never added: the client carries
  the empty user name and exactly the groups it was given, and so does the helper. When
  no groups are given either, as in every call of the suite with the empty user, the
  identity is the empty one (no user, no groups): no impersonation is applied.
\<close>

theorem asUser_empty_user:
  assumes "asUser ok h [] groups = (h', Inr client)"
  shows "UserName (identity client) = []
       \<and> Groups (identity client) = groups
       \<and> Impersonate (GetConfig h') = identity client
       \<and> count_list (Groups (identity client)) ''system:authenticated'' =
           count_list groups ''system:authenticated''
       \<and> count_list (Groups (identity client)) ''system:authenticated:oauth'' =
           count_list groups ''system:authenticated:oauth''
       \<and> (groups = [] \<longrightarrow>
             identity client = \<lparr>UserName = [], Groups = []\<rparr> \<and>
             Impersonate (GetConfig h') = \<lparr>UserName = [], Groups = []\<rparr>)"
proof -
  have c: "identity client = \<lparr>UserName = [], Groups = groups\<rparr>"
    using asUser_client [OF assms] by simp
  have "Impersonate (GetConfig h') = \<lparr>UserName = [], Groups = groups\<rparr>"
    using asUser_helper [of ok h "[]" groups] assms by simp
  with c show ?thesis by simp
qed

text \<open>
  Witness for C3, as amended: the call \<open>asUser(h, "")\<close> of the suite, on the sample helper.
\<close>

theorem asUser_empty_user_witness:
  "asUser accept_all h0 [] [] =
     (h0, Inr \<lparr>config = \<lparr>Impersonate = \<lparr>UserName = [], Groups = []\<rparr>\<rparr>\<rparr>)
   \<and> identity \<lparr>config = \<lparr>Impersonate = \<lparr>UserName = [], Groups = []\<rparr>\<rparr>\<rparr> =
       \<lparr>UserName = [], Groups = []\<rparr>
   \<and> Impersonate (GetConfig h0) = \<lparr>UserName = [], Groups = []\<rparr>"
proof -
  have run: "asUser accept_all h0 [] [] =
     (h0, Inr \<lparr>config = \<lparr>Impersonate = \<lparr>UserName = [], Groups = []\<rparr>\<rparr>\<rparr>)"
    by (simp add: asUser_def Let_def h0_def accept_all_def resources_New_def GetConfig_def
          H_Impersonate_def)
  show ?thesis using asUser_empty_user [OF run] run by simp
qed

text \<open>
  Counterexample to C3 as stated: with the empty user and the group \<open>dedicated-admins\<close>,
  the identity stored in the helper and carried by the client holds that group, so it is
  not the empty identity.
\<close>

theorem asUser_empty_user_groups_counterexample:
  "Impersonate (GetConfig (fst (asUser accept_all h0 [] [''dedicated-admins'']))) =
     \<lparr>UserName = [], Groups = [''dedicated-admins'']\<rparr>
   \<and> snd (asUser accept_all h0 [] [''dedicated-admins'']) =
     Inr \<lparr>config = \<lparr>Impersonate = \<lparr>UserName = [], Groups = [''dedicated-admins'']\<rparr>\<rparr>\<rparr>
   \<and> identity \<lparr>config = \<lparr>Impersonate = \<lparr>UserName = [], Groups = [''dedicated-admins'']\<rparr>\<rparr>\<rparr> \<noteq>
       \<lparr>UserName = [], Groups = []\<rparr>"
  by (simp add: asUser_def Let_def h0_def accept_all_def resources_New_def GetConfig_def
        H_Impersonate_def identity_def)

section \<open>The readiness of the daemonset\<close>

text \<open>The callback on a daemonset, with the counters read as signed numbers.\<close>

lemma daemonSetMatch_sint:
  "daemonSetMatch (DaemonSetObject d) =
     Inr (sint (CurrentNumberScheduled (Status d)) = sint (DesiredNumberScheduled (Status d)) \<and>
          sint (NumberReady (Status d)) = sint (DesiredNumberScheduled (Status d)) \<and>
          sint (NumberAvailable (Status d)) = sint (DesiredNumberScheduled (Status d)))"
  by (simp add: daemonSetMatch_def Let_def word_eq_iff_signed [where ?'a = int])

lemma daemonSetMatch_True:
  assumes "daemonSetMatch obj = Inr True"
  shows "\<exists>d. obj = DaemonSetObject d \<and>
           sint (CurrentNumberScheduled (Status d)) = sint (DesiredNumberScheduled (Status d)) \<and>
           sint (NumberReady (Status d)) = sint (DesiredNumberScheduled (Status d)) \<and>
           sint (NumberAvailable (Status d)) = sint (DesiredNumberScheduled (Status d))"
proof (cases obj)
  case (DaemonSetObject d)
  with assms show ?thesis by (simp add: daemonSetMatch_sint)
next
  case (PodObject p)
  with assms show ?thesis by (simp add: daemonSetMatch_def)
qed

text \<open>
  C4. \<open>waitForDaemonSetAvailable\<close> returns what \<open>wait.For\<close> returns on the condition
  built by \<open>ResourceMatch\<close> from the client, the daemonset of the given name and namespace,
  and the callback. On a daemonset the callback is true exactly when the numbers currently
  scheduled, ready and available all equal the desired number; with desired 3, current 3,
  ready 2 and available 2 it is false, and with all four 0 it is true. Whenever \<open>wait.For\<close>
  reports success only after the callback was true on a fetched object,
  \<open>waitForDaemonSetAvailable\<close> succeeds only if a fetched daemonset had all three numbers
  equal to the desired one: a partial match never ends the wait with success.
\<close>

theorem waitForDaemonSetAvailable_ready:
  "waitForDaemonSetAvailable waiter client name namespace =
     waiter (ResourceMatch client
           \<lparr>ds_ObjectMeta = \<lparr>Name = name, Namespace = namespace\<rparr>,
            Status = \<lparr>CurrentNumberScheduled = 0, NumberReady = 0, NumberAvailable = 0,
                      DesiredNumberScheduled = 0\<rparr>\<rparr>
           daemonSetMatch)
   \<and> daemonSetMatch (DaemonSetObject d) =
     Inr (sint (CurrentNumberScheduled (Status d)) = sint (DesiredNumberScheduled (Status d)) \<and>
          sint (NumberReady (Status d)) = sint (DesiredNumberScheduled (Status d)) \<and>
          sint (NumberAvailable (Status d)) = sint (DesiredNumberScheduled (Status d)))
   \<and> daemonSetMatch (DaemonSetObject \<lparr>ds_ObjectMeta = m,
         Status = \<lparr>CurrentNumberScheduled = 3, NumberReady = 2, NumberAvailable = 2,
                   DesiredNumberScheduled = 3\<rparr>\<rparr>) = Inr False
   \<and> daemonSetMatch (DaemonSetObject \<lparr>ds_ObjectMeta = m,
         Status = \<lparr>CurrentNumberScheduled = 0, NumberReady = 0, NumberAvailable = 0,
                   DesiredNumberScheduled = 0\<rparr>\<rparr>) = Inr True
   \<and> ((\<forall>c ds f. waiter (ResourceMatch c ds f) = None \<longrightarrow> (\<exists>obj\<in>fetched. f obj = Inr True)) \<longrightarrow>
       waitForDaemonSetAvailable waiter client name namespace = None \<longrightarrow>
       (\<exists>d. DaemonSetObject d \<in> fetched \<and>
            sint (CurrentNumberScheduled (Status d)) = sint (DesiredNumberScheduled (Status d)) \<and>
            sint (NumberReady (Status d)) = sint (DesiredNumberScheduled (Status d)) \<and>
            sint (NumberAvailable (Status d)) = sint (DesiredNumberScheduled (Status d))))"
proof -
  have hand: "waitForDaemonSetAvailable waiter client name namespace =
     waiter (ResourceMatch client
           \<lparr>ds_ObjectMeta = \<lparr>Name = name, Namespace = namespace\<rparr>,
            Status = \<lparr>CurrentNumberScheduled = 0, NumberReady = 0, NumberAvailable = 0,
                      DesiredNumberScheduled = 0\<rparr>\<rparr>
           daemonSetMatch)"
    by (simp add: waitForDaemonSetAvailable_def Let_def)
  have partial: "daemonSetMatch (DaemonSetObject \<lparr>ds_ObjectMeta = m,
         Status = \<lparr>CurrentNumberScheduled = 3, NumberReady = 2, NumberAvailable = 2,
                   DesiredNumberScheduled = 3\<rparr>\<rparr>) = Inr False"
    by (simp add: daemonSetMatch_def Let_def)
  have zero: "daemonSetMatch (DaemonSetObject \<lparr>ds_ObjectMeta = m,
         Status = \<lparr>CurrentNumberScheduled = 0, NumberReady = 0, NumberAvailable = 0,
                   DesiredNumberScheduled = 0\<rparr>\<rparr>) = Inr True"
    by (simp add: daemonSetMatch_def Let_def)
  have poll: "(\<forall>c ds f. waiter (ResourceMatch c ds f) = None \<longrightarrow> (\<exists>obj\<in>fetched. f obj = Inr True)) \<longrightarrow>
       waitForDaemonSetAvailable waiter client name namespace = None \<longrightarrow>
       (\<exists>d. DaemonSetObject d \<in> fetched \<and>
            sint (CurrentNumberScheduled (Status d)) = sint (DesiredNumberScheduled (Status d)) \<and>
            sint (NumberReady (Status d)) = sint (DesiredNumberScheduled (Status d)) \<and>
            sint (NumberAvailable (Status d)) = sint (DesiredNumberScheduled (Status d)))"
  proof (intro impI)
    assume contract: "\<forall>c ds f. waiter (ResourceMatch c ds f) = None \<longrightarrow> (\<exists>obj\<in>fetched. f obj = Inr True)"
       and success: "waitForDaemonSetAvailable waiter client name namespace = None"
    from success hand contract obtain obj where o: "obj \<in> fetched" "daemonSetMatch obj = Inr True"
      by metis
    from daemonSetMatch_True [OF o(2)] o(1) show "\<exists>d. DaemonSetObject d \<in> fetched \<and>
            sint (CurrentNumberScheduled (Status d)) = sint (DesiredNumberScheduled (Status d)) \<and>
            sint (NumberReady (Status d)) = sint (DesiredNumberScheduled (Status d)) \<and>
            sint (NumberAvailable (Status d)) = sint (DesiredNumberScheduled (Status d))"
      by blast
  qed
  from hand daemonSetMatch_sint partial zero poll show ?thesis by blast
qed

text \<open>
  Witness for C4: with a waiter that only ever fetches the partial match, the wait ends
  with an error; once a fetch returns 3, 3, 3, 3 it succeeds; and the daemonset with all
  four numbers 0 succeeds at once.
\<close>

theorem waitForDaemonSetAvailable_ready_witness:
  "waitForDaemonSetAvailable (sample_poll [sample_ds 3 3 2 2])
      \<lparr>config = \<lparr>Impersonate = \<lparr>UserName = [], Groups = []\<rparr>\<rparr>\<rparr>
      ''validation-webhook'' ''openshift-validation-webhook'' = Some DeadlineExceeded
   \<and> waitForDaemonSetAvailable (sample_poll [sample_ds 3 3 2 2, sample_ds 3 3 3 3])
      \<lparr>config = \<lparr>Impersonate = \<lparr>UserName = [], Groups = []\<rparr>\<rparr>\<rparr>
      ''validation-webhook'' ''openshift-validation-webhook'' = None
   \<and> waitForDaemonSetAvailable (sample_poll [sample_ds 0 0 0 0])
      \<lparr>config = \<lparr>Impersonate = \<lparr>UserName = [], Groups = []\<rparr>\<rparr>\<rparr>
      ''validation-webhook'' ''openshift-validation-webhook'' = None
   \<and> (\<exists>d. DaemonSetObject d \<in> set [sample_ds 3 3 2 2, sample_ds 3 3 3 3] \<and>
            sint (CurrentNumberScheduled (Status d)) = sint (DesiredNumberScheduled (Status d)) \<and>
            sint (NumberReady (Status d)) = sint (DesiredNumberScheduled (Status d)) \<and>
            sint (NumberAvailable (Status d)) = sint (DesiredNumberScheduled (Status d)))"
proof -
  have contract: "\<forall>c ds f. sample_poll [sample_ds 3 3 2 2, sample_ds 3 3 3 3] (ResourceMatch c ds f) = None \<longrightarrow>
      (\<exists>obj\<in>set [sample_ds 3 3 2 2, sample_ds 3 3 3 3]. f obj = Inr True)"
    by (auto simp: sample_poll_def split: if_splits)
  have w1: "waitForDaemonSetAvailable (sample_poll [sample_ds 3 3 2 2])
      \<lparr>config = \<lparr>Impersonate = \<lparr>UserName = [], Groups = []\<rparr>\<rparr>\<rparr>
      ''validation-webhook'' ''openshift-validation-webhook'' = Some DeadlineExceeded"
    by (simp add: waitForDaemonSetAvailable_def Let_def sample_poll_def sample_ds_def daemonSetMatch_def)
  have w2: "waitForDaemonSetAvailable (sample_poll [sample_ds 3 3 2 2, sample_ds 3 3 3 3])
      \<lparr>config = \<lparr>Impersonate = \<lparr>UserName = [], Groups = []\<rparr>\<rparr>\<rparr>
      ''validation-webhook'' ''openshift-validation-webhook'' = None"
    by (simp add: waitForDaemonSetAvailable_def Let_def sample_poll_def sample_ds_def daemonSetMatch_def)
  have w3: "waitForDaemonSetAvailable (sample_poll [sample_ds 0 0 0 0])
      \<lparr>config = \<lparr>Impersonate = \<lparr>UserName = [], Groups = []\<rparr>\<rparr>\<rparr>
      ''validation-webhook'' ''openshift-validation-webhook'' = None"
    by (simp add: waitForDaemonSetAvailable_def Let_def sample_poll_def sample_ds_def daemonSetMatch_def)
  from waitForDaemonSetAvailable_ready
        [of "sample_poll [sample_ds 3 3 2 2, sample_ds 3 3 3 3]"
            "\<lparr>config = \<lparr>Impersonate = \<lparr>UserName = [], Groups = []\<rparr>\<rparr>\<rparr>"
            "''validation-webhook''" "''openshift-validation-webhook''" _ _
            "set [sample_ds 3 3 2 2, sample_ds 3 3 3 3]"]
       contract w2
  have "\<exists>d. DaemonSetObject d \<in> set [sample_ds 3 3 2 2, sample_ds 3 3 3 3] \<and>
            sint (CurrentNumberScheduled (Status d)) = sint (DesiredNumberScheduled (Status d)) \<and>
            sint (NumberReady (Status d)) = sint (DesiredNumberScheduled (Status d)) \<and>
            sint (NumberAvailable (Status d)) = sint (DesiredNumberScheduled (Status d))"
    by blast
  with w1 w2 w3 show ?thesis by blast
qed

section \<open>Running the specs\<close>

text \<open>
  The steps of a spec unfold to plain state transformers. When the library accepts the
  configuration, the factory functions yield the client and leave the identity in the
  helper.
\<close>

lemmas test_defs = bindT_def returnT_def expectT_def get_pod_def set_pod_def send_def
  Resources_Get_def Resources_Create_def Resources_Delete_def deref_def newTestPod_def
  withNamespace_def BeforeEach_def spec_body_def

lemma asUser_ambient:
  "ok \<lparr>Impersonate = \<lparr>UserName = [], Groups = groups\<rparr>\<rparr> \<Longrightarrow>
   asUser ok h [] groups =
     (H_Impersonate h \<lparr>UserName = [], Groups = groups\<rparr>,
      Inr \<lparr>config = \<lparr>Impersonate = \<lparr>UserName = [], Groups = groups\<rparr>\<rparr>\<rparr>)"
  by (cases "restConfig h")
     (simp add: asUser_def Let_def resources_New_def GetConfig_def H_Impersonate_def)

lemma asUser_named:
  "user \<noteq> [] \<Longrightarrow>
   ok \<lparr>Impersonate = \<lparr>UserName = user,
         Groups = groups @ [''system:authenticated'', ''system:authenticated:oauth'']\<rparr>\<rparr> \<Longrightarrow>
   asUser ok h user groups =
     (H_Impersonate h \<lparr>UserName = user,
        Groups = groups @ [''system:authenticated'', ''system:authenticated:oauth'']\<rparr>,
      Inr \<lparr>config = \<lparr>Impersonate = \<lparr>UserName = user,
        Groups = groups @ [''system:authenticated'', ''system:authenticated:oauth'']\<rparr>\<rparr>\<rparr>)"
  by (cases "restConfig h")
     (simp add: asUser_def Let_def resources_New_def GetConfig_def H_Impersonate_def)

lemma asUserT_ambient:
  assumes "New_ok e \<lparr>Impersonate = \<lparr>UserName = [], Groups = []\<rparr>\<rparr>"
  shows "asUserT e [] [] st =
     (Inr \<lparr>config = \<lparr>Impersonate = \<lparr>UserName = [], Groups = []\<rparr>\<rparr>\<rparr>,
      st\<lparr>var_h := H_Impersonate (var_h st) \<lparr>UserName = [], Groups = []\<rparr>\<rparr>)"
  using assms by (simp add: asUserT_def asUser_ambient)

lemma asUserT_named:
  assumes "user \<noteq> []" and "\<forall>cfg. New_ok e cfg"
  shows "asUserT e user groups st =
     (Inr \<lparr>config = \<lparr>Impersonate = \<lparr>UserName = user,
        Groups = groups @ [''system:authenticated'', ''system:authenticated:oauth'']\<rparr>\<rparr>\<rparr>,
      st\<lparr>var_h := H_Impersonate (var_h st) \<lparr>UserName = user,
        Groups = groups @ [''system:authenticated'', ''system:authenticated:oauth'']\<rparr>\<rparr>)"
  using assms by (simp add: asUserT_def asUser_named)

lemma asDedicatedAdminT_run:
  assumes "\<forall>cfg. New_ok e cfg"
  shows "asDedicatedAdminT e st =
     (Inr \<lparr>config = \<lparr>Impersonate = \<lparr>UserName = ''test-user@redhat.com'',
        Groups = [''dedicated-admins'', ''system:authenticated'', ''system:authenticated:oauth'']\<rparr>\<rparr>\<rparr>,
      st\<lparr>var_h := H_Impersonate (var_h st) \<lparr>UserName = ''test-user@redhat.com'',
        Groups = [''dedicated-admins'', ''system:authenticated'', ''system:authenticated:oauth'']\<rparr>\<rparr>)"
  using assms by (simp add: asDedicatedAdminT_def asDedicatedAdmin_def asUser_named)

lemma asServiceAccountT_run:
  assumes "sa \<noteq> []" and "\<forall>cfg. New_ok e cfg"
  shows "asServiceAccountT e sa st =
     (Inr \<lparr>config = \<lparr>Impersonate = \<lparr>UserName = sa,
        Groups = [''system:authenticated'', ''system:authenticated:oauth'']\<rparr>\<rparr>\<rparr>,
      st\<lparr>var_h := H_Impersonate ((var_h st)\<lparr>ServiceAccount := sa\<rparr>) \<lparr>UserName = sa,
        Groups = [''system:authenticated'', ''system:authenticated:oauth'']\<rparr>\<rparr>)"
  using assms by (simp add: asServiceAccountT_def asServiceAccount_def asUser_named)

text \<open>
  \<open>AfterEach\<close> on a state whose \<open>pod\<close> points to a pod: one delete request under the
  empty identity; \<open>nil\<close> and not-found pass, every other error fails.
\<close>

lemma AfterEach_run:
  assumes ok: "New_ok e \<lparr>Impersonate = \<lparr>UserName = [], Groups = []\<rparr>\<rparr>"
      and pod: "var_pod st = Some a" "heap st a = Some obj"
  shows "AfterEach e st =
     (if cluster e (trace st) (DeleteCall \<lparr>UserName = [], Groups = []\<rparr> (pod_ObjectMeta obj)) = None \<or>
         cluster e (trace st) (DeleteCall \<lparr>UserName = [], Groups = []\<rparr> (pod_ObjectMeta obj)) = Some NotFound
      then Inr () else Inl (Failure ''failed to delete test pod''),
      st\<lparr>var_h := H_Impersonate (var_h st) \<lparr>UserName = [], Groups = []\<rparr>,
         trace := trace st @ [DeleteCall \<lparr>UserName = [], Groups = []\<rparr> (pod_ObjectMeta obj)]\<rparr>)"
  using pod
  by (auto simp: AfterEach_def test_defs asUserT_ambient [OF ok] identity_def IsNotFound_def)

text \<open>
  The two spec bodies after \<open>BeforeEach\<close>, in terms of the cluster's answers: the requests
  sent, the result, and the pod that \<open>pod\<close> points to afterwards.
\<close>

lemma blocked_run:
  fixes e :: env and st :: suite_state and name :: string
  defines "a \<equiv> next_addr st"
  defines "admin \<equiv> \<lparr>UserName = ''test-user@redhat.com'',
      Groups = [''dedicated-admins'', ''system:authenticated'', ''system:authenticated:oauth'']\<rparr>"
  defines "majora \<equiv> \<lparr>UserName = ''majora'',
      Groups = [''system:authenticated'', ''system:authenticated:oauth'']\<rparr>"
  defines "c1 \<equiv> CreateCall admin \<lparr>pod_ObjectMeta = \<lparr>Name = name, Namespace = ''openshift-backplane''\<rparr>, Spec = Spec (testPod name)\<rparr>"
  defines "c2 \<equiv> CreateCall majora \<lparr>pod_ObjectMeta = \<lparr>Name = name, Namespace = ''openshift-backplane''\<rparr>, Spec = Spec (testPod name)\<rparr>"
  defines "c3 \<equiv> CreateCall majora \<lparr>pod_ObjectMeta = \<lparr>Name = name, Namespace = ''openshift-logging''\<rparr>, Spec = Spec (testPod name)\<rparr>"
  defines "e1 \<equiv> cluster e (trace st) c1"
  defines "e2 \<equiv> cluster e (trace st @ [c1]) c2"
  defines "e3 \<equiv> cluster e (trace st @ [c1, c2]) c3"
  assumes ok: "\<forall>cfg. New_ok e cfg"
      and run: "spec_body name (are_blocked e) st = (r, st1)"
  shows "trace st1 = trace st @ (if e1 \<noteq> Some Forbidden then [c1]
                                  else if e2 \<noteq> Some Forbidden then [c1, c2] else [c1, c2, c3])"
    and "r = (if e1 = Some Forbidden \<and> e2 = Some Forbidden \<and> e3 = Some Forbidden then Inr ()
              else Inl (Failure ''expected forbidden error''))"
    and "var_pod st1 = Some a"
    and "heap st1 a = Some \<lparr>pod_ObjectMeta = \<lparr>Name = name,
           Namespace = (if e1 = Some Forbidden \<and> e2 = Some Forbidden then ''openshift-logging''
                        else ''openshift-backplane'')\<rparr>, Spec = Spec (testPod name)\<rparr>"
  using run
  unfolding a_def admin_def majora_def c1_def c2_def c3_def e1_def e2_def e3_def
  by (auto simp: are_blocked_def test_defs asUserT_named [OF _ ok] asDedicatedAdminT_run [OF ok]
        identity_def IsForbidden_def privilegedNamespace_def unprivilegedNamespace_def testPod_def
        split: if_splits)

lemma allowed_run:
  fixes e :: env and st :: suite_state and name :: string
  defines "a \<equiv> next_addr st"
  defines "sa \<equiv> \<lparr>UserName = ''system:serviceaccount:'' @ CurrentProject (var_h st) @ '':dedicated-admin-project'',
      Groups = [''system:authenticated'', ''system:authenticated:oauth'']\<rparr>"
  defines "c \<equiv> CreateCall sa \<lparr>pod_ObjectMeta = \<lparr>Name = name, Namespace = ''openshift-backplane''\<rparr>, Spec = Spec (testPod name)\<rparr>"
  assumes ok: "\<forall>cfg. New_ok e cfg"
      and run: "spec_body name (are_allowed e) st = (r, st1)"
  shows "trace st1 = trace st @ [c]"
    and "r = (if cluster e (trace st) c = None then Inr () else Inl (Failure ''failed to create pod''))"
    and "var_pod st1 = Some a"
    and "heap st1 a = Some \<lparr>pod_ObjectMeta = \<lparr>Name = name, Namespace = ''openshift-backplane''\<rparr>,
           Spec = Spec (testPod name)\<rparr>"
  using run
  unfolding a_def sa_def c_def
  by (auto simp: are_allowed_def test_defs asServiceAccountT_run [OF _ ok]
        identity_def privilegedNamespace_def testPod_def
        split: if_splits)

text \<open>
  A whole spec: after the body, \<open>AfterEach\<close> adds its delete request and its failure,
  if any, and leaves \<open>pod\<close> and the pod it points to as they were.
\<close>

lemma failures_simps:
  "failures (Inr u) = []" "failures (Inl f) = [f]"
  by (simp_all add: failures_def)

lemma run_spec_after:
  assumes ok: "New_ok e \<lparr>Impersonate = \<lparr>UserName = [], Groups = []\<rparr>\<rparr>"
      and before: "spec_body name body st = (r1, st1)"
      and pod: "var_pod st1 = Some a" "heap st1 a = Some obj"
      and run: "run_spec e name body st = (fs, st')"
  shows "trace st' = trace st1 @ [DeleteCall \<lparr>UserName = [], Groups = []\<rparr> (pod_ObjectMeta obj)]"
    and "fs = failures r1 @
         (if cluster e (trace st1) (DeleteCall \<lparr>UserName = [], Groups = []\<rparr> (pod_ObjectMeta obj)) = None \<or>
             cluster e (trace st1) (DeleteCall \<lparr>UserName = [], Groups = []\<rparr> (pod_ObjectMeta obj)) = Some NotFound
          then [] else [Failure ''failed to delete test pod''])"
    and "var_pod st' = Some a" and "heap st' a = Some obj"
  using run
  by (auto simp: run_spec_def before AfterEach_run [OF ok pod] pod failures_simps split: if_splits)

lemma withNamespace_result:
  assumes "withNamespace p namespace st = (Inr p', st')"
  shows "\<exists>a obj. p = Some a \<and> p' = Some a \<and> heap st a = Some obj \<and>
           st' = st\<lparr>heap := (heap st)(a \<mapsto>
                    obj\<lparr>pod_ObjectMeta := (pod_ObjectMeta obj)\<lparr>Namespace := namespace\<rparr>\<rparr>)\<rparr>"
  using assms by (auto simp: withNamespace_def split: option.splits)

text \<open>The sample cluster: every configuration is accepted, and the allowed spec passes.\<close>

lemma e0_ok: "\<forall>cfg. New_ok e0 cfg"
  by (simp add: e0_def accept_all_def)

lemma run_pair: "f x = (fst (f x), snd (f x))"
  by simp

lemmas sample_defs = e0_def st0_def h0_def accept_all_def sample_cluster_def sample_wait_def
  created_def

lemma allowed_sample_run:
  "fst (run_spec e0 ''osde2e-abc'' (are_allowed e0) st0) = []"
  "trace (snd (run_spec e0 ''osde2e-abc'' (are_allowed e0) st0)) =
     [CreateCall \<lparr>UserName = ''system:serviceaccount:osde2e-x1:dedicated-admin-project'',
                  Groups = [''system:authenticated'', ''system:authenticated:oauth'']\<rparr>
        \<lparr>pod_ObjectMeta = \<lparr>Name = ''osde2e-abc'', Namespace = ''openshift-backplane''\<rparr>,
         Spec = Spec (testPod ''osde2e-abc'')\<rparr>,
      DeleteCall \<lparr>UserName = [], Groups = []\<rparr>
        \<lparr>Name = ''osde2e-abc'', Namespace = ''openshift-backplane''\<rparr>]"
proof -
  obtain r1 st1 where before: "spec_body ''osde2e-abc'' (are_allowed e0) st0 = (r1, st1)"
    by (cases "spec_body ''osde2e-abc'' (are_allowed e0) st0")
  obtain fs st' where run: "run_spec e0 ''osde2e-abc'' (are_allowed e0) st0 = (fs, st')"
    by (cases "run_spec e0 ''osde2e-abc'' (are_allowed e0) st0")
  have ok0: "New_ok e0 \<lparr>Impersonate = \<lparr>UserName = [], Groups = []\<rparr>\<rparr>"
    using e0_ok by simp
  note ar = allowed_run [OF e0_ok before]
  note ra = run_spec_after [OF ok0 before ar(3) ar(4) run]
  have tr: "trace st1 = [CreateCall \<lparr>UserName = ''system:serviceaccount:osde2e-x1:dedicated-admin-project'',
                  Groups = [''system:authenticated'', ''system:authenticated:oauth'']\<rparr>
        \<lparr>pod_ObjectMeta = \<lparr>Name = ''osde2e-abc'', Namespace = ''openshift-backplane''\<rparr>,
         Spec = Spec (testPod ''osde2e-abc'')\<rparr>]"
    using ar(1) by (simp add: st0_def h0_def CurrentProject_def)
  have r1: "r1 = Inr ()"
    using ar(2) by (simp add: sample_defs CurrentProject_def)
  have "fs = []"
    using ra(2) by (simp add: r1 tr failures_simps sample_defs)
  then show "fst (run_spec e0 ''osde2e-abc'' (are_allowed e0) st0) = []"
    by (simp add: run)
  show "trace (snd (run_spec e0 ''osde2e-abc'' (are_allowed e0) st0)) =
     [CreateCall \<lparr>UserName = ''system:serviceaccount:osde2e-x1:dedicated-admin-project'',
                  Groups = [''system:authenticated'', ''system:authenticated:oauth'']\<rparr>
        \<lparr>pod_ObjectMeta = \<lparr>Name = ''osde2e-abc'', Namespace = ''openshift-backplane''\<rparr>,
         Spec = Spec (testPod ''osde2e-abc'')\<rparr>,
      DeleteCall \<lparr>UserName = [], Groups = []\<rparr>
        \<lparr>Name = ''osde2e-abc'', Namespace = ''openshift-backplane''\<rparr>]"
    using ra(1) by (simp add: run tr)
qed

section \<open>The existence scenario\<close>

text \<open>
  C7. When the library accepts the empty identity, \<open>exists and is running\<close> sends its
  requests under the empty user name with no groups (no impersonation): one get for the
  namespace \<open>openshift-validation-webhook\<close>, then one for the configmap \<open>webhook-cert\<close>,
  the secret \<open>webhook-cert\<close> and the service \<open>validation-webhook\<close> in that namespace,
  in this order and stopping at the first that returns an error. It passes exactly when
  all four return no error (so a not-found on any of them fails it) and \<open>wait.For\<close>, run
  on the \<open>ResourceMatch\<close> condition for the daemonset \<open>validation-webhook\<close> with the
  readiness callback, returns no error; the spec sends no get for the daemonset itself.
\<close>

theorem exists_and_is_running_calls:
  fixes e :: env and st :: suite_state
  defines "who \<equiv> \<lparr>UserName = [], Groups = []\<rparr>"
  defines "g1 \<equiv> GetCall who ''openshift-validation-webhook'' ''openshift-validation-webhook'' KindNamespace"
  defines "g2 \<equiv> GetCall who ''webhook-cert'' ''openshift-validation-webhook'' KindConfigMap"
  defines "g3 \<equiv> GetCall who ''webhook-cert'' ''openshift-validation-webhook'' KindSecret"
  defines "g4 \<equiv> GetCall who ''validation-webhook'' ''openshift-validation-webhook'' KindService"
  defines "waited \<equiv> wait_For e (ResourceMatch \<lparr>config = \<lparr>Impersonate = who\<rparr>\<rparr>
      \<lparr>ds_ObjectMeta = \<lparr>Name = ''validation-webhook'', Namespace = ''openshift-validation-webhook''\<rparr>,
       Status = \<lparr>CurrentNumberScheduled = 0, NumberReady = 0, NumberAvailable = 0,
                 DesiredNumberScheduled = 0\<rparr>\<rparr> daemonSetMatch)"
  assumes ok: "New_ok e \<lparr>Impersonate = \<lparr>UserName = [], Groups = []\<rparr>\<rparr>"
      and run: "exists_and_is_running e st = (r, st')"
  shows "trace st' = trace st @
           (if cluster e (trace st) g1 \<noteq> None then [g1]
            else if cluster e (trace st @ [g1]) g2 \<noteq> None then [g1, g2]
            else if cluster e (trace st @ [g1, g2]) g3 \<noteq> None then [g1, g2, g3]
            else [g1, g2, g3, g4])
       \<and> (r = Inr ()) =
           (cluster e (trace st) g1 = None \<and> cluster e (trace st @ [g1]) g2 = None \<and>
            cluster e (trace st @ [g1, g2]) g3 = None \<and>
            cluster e (trace st @ [g1, g2, g3]) g4 = None \<and> waited = None)"
  using run
  unfolding who_def g1_def g2_def g3_def g4_def waited_def
  by (auto simp: exists_and_is_running_def test_defs asUserT_ambient [OF ok] identity_def
        waitForDaemonSetAvailable_def Let_def namespaceName_def serviceName_def
        daemonsetName_def configMapName_def secretName_def
        split: if_splits)

text \<open>
  Witness for C7: on the sample cluster the spec passes after exactly the four gets.
\<close>

theorem exists_and_is_running_calls_witness:
  "New_ok e0 \<lparr>Impersonate = \<lparr>UserName = [], Groups = []\<rparr>\<rparr>
   \<and> fst (exists_and_is_running e0 st0) = Inr ()
   \<and> trace (snd (exists_and_is_running e0 st0)) =
       [GetCall \<lparr>UserName = [], Groups = []\<rparr> ''openshift-validation-webhook''
          ''openshift-validation-webhook'' KindNamespace,
        GetCall \<lparr>UserName = [], Groups = []\<rparr> ''webhook-cert''
          ''openshift-validation-webhook'' KindConfigMap,
        GetCall \<lparr>UserName = [], Groups = []\<rparr> ''webhook-cert''
          ''openshift-validation-webhook'' KindSecret,
        GetCall \<lparr>UserName = [], Groups = []\<rparr> ''validation-webhook''
          ''openshift-validation-webhook'' KindService]"
proof -
  have ok: "New_ok e0 \<lparr>Impersonate = \<lparr>UserName = [], Groups = []\<rparr>\<rparr>"
    by (simp add: e0_def accept_all_def)
  have run: "exists_and_is_running e0 st0 =
      (fst (exists_and_is_running e0 st0), snd (exists_and_is_running e0 st0))"
    by simp
  show ?thesis
    using exists_and_is_running_calls [OF ok run] ok
    by (simp add: e0_def sample_cluster_def sample_wait_def st0_def)
qed

section \<open>The authorization scenario\<close>

text \<open>
  C8. With every configuration accepted, \<open>are blocked\<close> sends creates of the test pod
  (named as \<open>BeforeEach\<close> named it, with the tolerations for
  \<open>node-role.kubernetes.io/master\<close> and \<open>node-role.kubernetes.io/infra\<close>) as
  \<open>test-user@redhat.com\<close> in group \<open>dedicated-admins\<close> in \<open>openshift-backplane\<close>, as
  \<open>majora\<close> in \<open>openshift-backplane\<close>, and as \<open>majora\<close> in \<open>openshift-logging\<close>, in this
  order and stopping at the first answer that is not forbidden; it passes exactly when all
  three are forbidden. \<open>are allowed\<close> sends one create in \<open>openshift-backplane\<close> as
  \<open>system:serviceaccount:<project>:dedicated-admin-project\<close> and passes exactly when the
  create returns no error.
\<close>

theorem authorization_creates:
  fixes e :: env and st st' :: suite_state and name name' :: string
  defines "spec \<equiv> \<lparr>Containers = [\<lparr>container_Name = ''test'',
                        Image = ''registry.access.redhat.com/ubi8/ubi-minimal''\<rparr>],
      Tolerations = [\<lparr>Key = ''node-role.kubernetes.io/master'', Value = ''toleration-key-value'',
                       Effect = TaintEffectNoSchedule\<rparr>,
                     \<lparr>Key = ''node-role.kubernetes.io/infra'', Value = ''toleration-key-value2'',
                       Effect = TaintEffectNoSchedule\<rparr>]\<rparr>"
  defines "admin \<equiv> \<lparr>UserName = ''test-user@redhat.com'',
      Groups = [''dedicated-admins'', ''system:authenticated'', ''system:authenticated:oauth'']\<rparr>"
  defines "majora \<equiv> \<lparr>UserName = ''majora'',
      Groups = [''system:authenticated'', ''system:authenticated:oauth'']\<rparr>"
  defines "sa \<equiv> \<lparr>UserName = ''system:serviceaccount:'' @ CurrentProject (var_h st') @ '':dedicated-admin-project'',
      Groups = [''system:authenticated'', ''system:authenticated:oauth'']\<rparr>"
  defines "c1 \<equiv> CreateCall admin \<lparr>pod_ObjectMeta = \<lparr>Name = name, Namespace = ''openshift-backplane''\<rparr>, Spec = spec\<rparr>"
  defines "c2 \<equiv> CreateCall majora \<lparr>pod_ObjectMeta = \<lparr>Name = name, Namespace = ''openshift-backplane''\<rparr>, Spec = spec\<rparr>"
  defines "c3 \<equiv> CreateCall majora \<lparr>pod_ObjectMeta = \<lparr>Name = name, Namespace = ''openshift-logging''\<rparr>, Spec = spec\<rparr>"
  defines "c4 \<equiv> CreateCall sa \<lparr>pod_ObjectMeta = \<lparr>Name = name', Namespace = ''openshift-backplane''\<rparr>, Spec = spec\<rparr>"
  assumes ok: "\<forall>cfg. New_ok e cfg"
      and blocked: "spec_body name (are_blocked e) st = (r, st1)"
      and allowed: "spec_body name' (are_allowed e) st' = (r', st2)"
  shows "trace st1 = trace st @
           (if cluster e (trace st) c1 \<noteq> Some Forbidden then [c1]
            else if cluster e (trace st @ [c1]) c2 \<noteq> Some Forbidden then [c1, c2]
            else [c1, c2, c3])
       \<and> (r = Inr ()) =
           (cluster e (trace st) c1 = Some Forbidden \<and>
            cluster e (trace st @ [c1]) c2 = Some Forbidden \<and>
            cluster e (trace st @ [c1, c2]) c3 = Some Forbidden)
       \<and> trace st2 = trace st' @ [c4]
       \<and> (r' = Inr ()) = (cluster e (trace st') c4 = None)"
proof -
  have sp: "Spec (testPod name) = spec" "Spec (testPod name') = spec"
    by (simp_all add: testPod_def spec_def)
  note b = blocked_run [OF ok blocked, unfolded sp]
  note a = allowed_run [OF ok allowed, unfolded sp]
  have t1: "trace st1 = trace st @
           (if cluster e (trace st) c1 \<noteq> Some Forbidden then [c1]
            else if cluster e (trace st @ [c1]) c2 \<noteq> Some Forbidden then [c1, c2]
            else [c1, c2, c3])"
    using b(1) by (simp add: c1_def c2_def c3_def admin_def majora_def)
  have r1: "(r = Inr ()) =
           (cluster e (trace st) c1 = Some Forbidden \<and>
            cluster e (trace st @ [c1]) c2 = Some Forbidden \<and>
            cluster e (trace st @ [c1, c2]) c3 = Some Forbidden)"
    using b(2) by (simp add: c1_def c2_def c3_def admin_def majora_def)
  have t2: "trace st2 = trace st' @ [c4]"
    using a(1) by (simp add: c4_def sa_def)
  have r2: "(r' = Inr ()) = (cluster e (trace st') c4 = None)"
    using a(2) by (simp add: c4_def sa_def)
  from t1 r1 t2 r2 show ?thesis by blast
qed

text \<open>
  Witness for C8: on the sample cluster both specs pass; the identities of the requests
  are those of the claim.
\<close>

theorem authorization_creates_witness:
  "(\<forall>cfg. New_ok e0 cfg)
   \<and> fst (spec_body ''osde2e-abc'' (are_blocked e0) st0) = Inr ()
   \<and> map actor (trace (snd (spec_body ''osde2e-abc'' (are_blocked e0) st0))) =
       [\<lparr>UserName = ''test-user@redhat.com'',
         Groups = [''dedicated-admins'', ''system:authenticated'', ''system:authenticated:oauth'']\<rparr>,
        \<lparr>UserName = ''majora'', Groups = [''system:authenticated'', ''system:authenticated:oauth'']\<rparr>,
        \<lparr>UserName = ''majora'', Groups = [''system:authenticated'', ''system:authenticated:oauth'']\<rparr>]
   \<and> fst (spec_body ''osde2e-xyz'' (are_allowed e0) st0) = Inr ()
   \<and> map actor (trace (snd (spec_body ''osde2e-xyz'' (are_allowed e0) st0))) =
       [\<lparr>UserName = ''system:serviceaccount:osde2e-x1:dedicated-admin-project'',
         Groups = [''system:authenticated'', ''system:authenticated:oauth'']\<rparr>]"
  using authorization_creates [OF e0_ok
      run_pair [of "spec_body ''osde2e-abc'' (are_blocked e0)" st0]
      run_pair [of "spec_body ''osde2e-xyz'' (are_allowed e0)" st0]] e0_ok
  by (simp add: e0_def sample_cluster_def st0_def h0_def CurrentProject_def actor_def)

text \<open>
  C9, as amended. After either authorization spec, whatever the body's result, one delete
  of the test pod is sent, under the empty identity (the client of \<open>asUser(h, "")\<close>, not
  the identity that sent the create), addressed by the pod's name and the namespace last
  written into it. The spec's failures are those of the body, followed by
  \<open>failed to delete test pod\<close> exactly when the delete returns an error other than
  not-found.
\<close>

theorem cleanup_delete:
  assumes ok: "\<forall>cfg. New_ok e cfg"
      and body: "body = are_blocked e \<or> body = are_allowed e"
      and before: "spec_body name body st = (r1, st1)"
      and run: "run_spec e name body st = (fs, st')"
  shows "\<exists>namespace.
           (namespace = ''openshift-backplane'' \<or> namespace = ''openshift-logging'') \<and>
           trace st' = trace st1 @
             [DeleteCall \<lparr>UserName = [], Groups = []\<rparr> \<lparr>Name = name, Namespace = namespace\<rparr>] \<and>
           fs = failures r1 @
             (if cluster e (trace st1)
                   (DeleteCall \<lparr>UserName = [], Groups = []\<rparr> \<lparr>Name = name, Namespace = namespace\<rparr>) = None \<or>
                 cluster e (trace st1)
                   (DeleteCall \<lparr>UserName = [], Groups = []\<rparr> \<lparr>Name = name, Namespace = namespace\<rparr>) = Some NotFound
              then [] else [Failure ''failed to delete test pod''])"
proof -
  have ok0: "New_ok e \<lparr>Impersonate = \<lparr>UserName = [], Groups = []\<rparr>\<rparr>"
    using ok by simp
  from body show ?thesis
  proof
    assume b: "body = are_blocked e"
    note br = blocked_run [OF ok before [unfolded b]]
    note ra = run_spec_after [OF ok0 before br(3) br(4) run]
    show ?thesis
      by (rule exI [of _ "if cluster e (trace st) (CreateCall \<lparr>UserName = ''test-user@redhat.com'',
              Groups = [''dedicated-admins'', ''system:authenticated'', ''system:authenticated:oauth'']\<rparr>
              \<lparr>pod_ObjectMeta = \<lparr>Name = name, Namespace = ''openshift-backplane''\<rparr>, Spec = Spec (testPod name)\<rparr>) = Some Forbidden \<and>
            cluster e (trace st @ [CreateCall \<lparr>UserName = ''test-user@redhat.com'',
              Groups = [''dedicated-admins'', ''system:authenticated'', ''system:authenticated:oauth'']\<rparr>
              \<lparr>pod_ObjectMeta = \<lparr>Name = name, Namespace = ''openshift-backplane''\<rparr>, Spec = Spec (testPod name)\<rparr>])
             (CreateCall \<lparr>UserName = ''majora'', Groups = [''system:authenticated'', ''system:authenticated:oauth'']\<rparr>
              \<lparr>pod_ObjectMeta = \<lparr>Name = name, Namespace = ''openshift-backplane''\<rparr>, Spec = Spec (testPod name)\<rparr>) = Some Forbidden
            then ''openshift-logging'' else ''openshift-backplane''"])
         (use ra(1,2) in \<open>simp split: if_splits\<close>)
  next
    assume b: "body = are_allowed e"
    note ar = allowed_run [OF ok before [unfolded b]]
    note ra = run_spec_after [OF ok0 before ar(3) ar(4) run]
    show ?thesis
      by (rule exI [of _ "''openshift-backplane''"]) (use ra(1,2) in simp)
  qed
qed

text \<open>
  Witness for C9, as amended: \<open>are allowed\<close> on the sample cluster.
\<close>

theorem cleanup_delete_witness:
  "(\<forall>cfg. New_ok e0 cfg)
   \<and> (are_allowed e0 = are_blocked e0 \<or> are_allowed e0 = are_allowed e0)
   \<and> fst (run_spec e0 ''osde2e-abc'' (are_allowed e0) st0) = []
   \<and> (\<exists>namespace.
        trace (snd (run_spec e0 ''osde2e-abc'' (are_allowed e0) st0)) =
        trace (snd (spec_body ''osde2e-abc'' (are_allowed e0) st0)) @
          [DeleteCall \<lparr>UserName = [], Groups = []\<rparr> \<lparr>Name = ''osde2e-abc'', Namespace = namespace\<rparr>])"
  using cleanup_delete [OF e0_ok disjI2 [OF refl]
      run_pair [of "spec_body ''osde2e-abc'' (are_allowed e0)" st0]
      run_pair [of "run_spec e0 ''osde2e-abc'' (are_allowed e0)" st0]]
    allowed_sample_run(1) e0_ok
  by auto

text \<open>
  Counterexample to C9 as stated: in \<open>are allowed\<close> on the sample cluster the pod is
  created by the service account and deleted under the empty identity.
\<close>

theorem cleanup_identity_counterexample:
  "trace (snd (run_spec e0 ''osde2e-abc'' (are_allowed e0) st0)) =
     [CreateCall \<lparr>UserName = ''system:serviceaccount:osde2e-x1:dedicated-admin-project'',
                  Groups = [''system:authenticated'', ''system:authenticated:oauth'']\<rparr>
        \<lparr>pod_ObjectMeta = \<lparr>Name = ''osde2e-abc'', Namespace = ''openshift-backplane''\<rparr>,
         Spec = Spec (testPod ''osde2e-abc'')\<rparr>,
      DeleteCall \<lparr>UserName = [], Groups = []\<rparr>
        \<lparr>Name = ''osde2e-abc'', Namespace = ''openshift-backplane''\<rparr>]
   \<and> actor (trace (snd (run_spec e0 ''osde2e-abc'' (are_allowed e0) st0)) ! 0) \<noteq>
       actor (trace (snd (run_spec e0 ''osde2e-abc'' (are_allowed e0) st0)) ! 1)"
  by (simp add: allowed_sample_run(2) actor_def)

text \<open>
  C10. \<open>withNamespace\<close> returns the pointer it was given; the pod behind it gets the
  namespace, keeps its name and its spec, and nothing else in the state changes. In
  \<open>are blocked\<close> the variable \<open>pod\<close> therefore ends up pointing to a pod in the
  namespace written last (\<open>openshift-logging\<close> when the first two creates were forbidden,
  \<open>openshift-backplane\<close> otherwise), and the delete of \<open>AfterEach\<close> is addressed to that
  namespace.
\<close>

theorem withNamespace_in_place:
  fixes e :: env and s :: suite_state and name :: string
  defines "c1 \<equiv> CreateCall \<lparr>UserName = ''test-user@redhat.com'',
      Groups = [''dedicated-admins'', ''system:authenticated'', ''system:authenticated:oauth'']\<rparr>
      \<lparr>pod_ObjectMeta = \<lparr>Name = name, Namespace = ''openshift-backplane''\<rparr>, Spec = Spec (testPod name)\<rparr>"
  defines "c2 \<equiv> CreateCall \<lparr>UserName = ''majora'',
      Groups = [''system:authenticated'', ''system:authenticated:oauth'']\<rparr>
      \<lparr>pod_ObjectMeta = \<lparr>Name = name, Namespace = ''openshift-backplane''\<rparr>, Spec = Spec (testPod name)\<rparr>"
  defines "final \<equiv> (if cluster e (trace s) c1 = Some Forbidden \<and>
                        cluster e (trace s @ [c1]) c2 = Some Forbidden
                     then ''openshift-logging'' else ''openshift-backplane'')"
  assumes wn: "withNamespace p namespace st = (Inr p', st')"
      and ok: "\<forall>cfg. New_ok e cfg"
      and run: "run_spec e name (are_blocked e) s = (fs, s')"
  shows "p' = p
       \<and> (\<exists>a obj. p = Some a \<and> heap st a = Some obj \<and>
             heap st' a = Some \<lparr>pod_ObjectMeta = \<lparr>Name = Name (pod_ObjectMeta obj), Namespace = namespace\<rparr>,
                               Spec = Spec obj\<rparr> \<and>
             (\<forall>b. b \<noteq> a \<longrightarrow> heap st' b = heap st b))
       \<and> var_pod st' = var_pod st \<and> var_h st' = var_h st \<and> trace st' = trace st
       \<and> next_addr st' = next_addr st
       \<and> deref s' (var_pod s') =
           Some \<lparr>pod_ObjectMeta = \<lparr>Name = name, Namespace = final\<rparr>, Spec = Spec (testPod name)\<rparr>
       \<and> last (trace s') = DeleteCall \<lparr>UserName = [], Groups = []\<rparr> \<lparr>Name = name, Namespace = final\<rparr>"
proof -
  from withNamespace_result [OF wn] obtain a obj where
    w: "p = Some a" "p' = Some a" "heap st a = Some obj"
       "st' = st\<lparr>heap := (heap st)(a \<mapsto>
                obj\<lparr>pod_ObjectMeta := (pod_ObjectMeta obj)\<lparr>Namespace := namespace\<rparr>\<rparr>)\<rparr>"
    by blast
  have same: "p' = p" using w by simp
  have upd: "\<exists>a obj. p = Some a \<and> heap st a = Some obj \<and>
             heap st' a = Some \<lparr>pod_ObjectMeta = \<lparr>Name = Name (pod_ObjectMeta obj), Namespace = namespace\<rparr>,
                               Spec = Spec obj\<rparr> \<and>
             (\<forall>b. b \<noteq> a \<longrightarrow> heap st' b = heap st b)"
    using w by (intro exI [of _ a] exI [of _ obj]) simp
  have frame: "var_pod st' = var_pod st \<and> var_h st' = var_h st \<and> trace st' = trace st
       \<and> next_addr st' = next_addr st"
    using w by simp
  obtain r1 s1 where before: "spec_body name (are_blocked e) s = (r1, s1)"
    by (cases "spec_body name (are_blocked e) s")
  have ok0: "New_ok e \<lparr>Impersonate = \<lparr>UserName = [], Groups = []\<rparr>\<rparr>"
    using ok by simp
  note br = blocked_run [OF ok before]
  note ra = run_spec_after [OF ok0 before br(3) br(4) run]
  have pod: "deref s' (var_pod s') =
           Some \<lparr>pod_ObjectMeta = \<lparr>Name = name, Namespace = final\<rparr>, Spec = Spec (testPod name)\<rparr>"
    using ra(3) ra(4) by (simp add: deref_def final_def c1_def c2_def)
  have del: "last (trace s') = DeleteCall \<lparr>UserName = [], Groups = []\<rparr> \<lparr>Name = name, Namespace = final\<rparr>"
    using ra(1) by (simp add: final_def c1_def c2_def)
  from same upd frame pod del show ?thesis by blast
qed

text \<open>
  Witness for C10: \<open>withNamespace\<close> on a state that holds the test pod, and \<open>are blocked\<close>
  on the sample cluster, where all three creates are forbidden.
\<close>

theorem withNamespace_in_place_witness:
  "(\<forall>cfg. New_ok e0 cfg)
   \<and> fst (withNamespace (Some 0) ''openshift-logging''
        (st0\<lparr>var_pod := Some 0, heap := [0 \<mapsto> testPod ''osde2e-abc''], next_addr := 1\<rparr>)) = Inr (Some 0)
   \<and> last (trace (snd (run_spec e0 ''osde2e-abc'' (are_blocked e0) st0))) =
       DeleteCall \<lparr>UserName = [], Groups = []\<rparr> \<lparr>Name = ''osde2e-abc'', Namespace = ''openshift-logging''\<rparr>"
proof -
  have wn: "withNamespace (Some 0) ''openshift-logging''
        (st0\<lparr>var_pod := Some 0, heap := [0 \<mapsto> testPod ''osde2e-abc''], next_addr := 1\<rparr>) =
      (Inr (Some 0), snd (withNamespace (Some 0) ''openshift-logging''
        (st0\<lparr>var_pod := Some 0, heap := [0 \<mapsto> testPod ''osde2e-abc''], next_addr := 1\<rparr>)))"
    by (simp add: withNamespace_def)
  show ?thesis
    using withNamespace_in_place [OF wn e0_ok
        run_pair [of "run_spec e0 ''osde2e-abc'' (are_blocked e0)" st0]] e0_ok
    by (simp add: withNamespace_def sample_defs)
qed

end
